theory Spec2Isabelle
  imports Main "HOL-Library.AList"
begin

text \<open>
  A model of the resource dispatcher and the polling loops of kubedog
  (pkg/kubernetes/unstructured.go, with the constants and the client context of the
  package). The file holds the functions twice: as methods of the client context, and as
  a later copy that takes the clients as arguments and has the same switch and the same
  loops. The model follows the methods.
\<close>

section \<open>Data model\<close>

subsection \<open>Errors and outcomes\<close>

text \<open>
  The reason carried by an API status error of the orchestration system. The Go predicates
  \<open>kerrors.IsNotFound\<close> and \<open>kerrors.IsAlreadyExists\<close> only look at this reason.
\<close>

datatype StatusReason = StatusReasonNotFound | StatusReasonAlreadyExists | StatusReasonOther string

text \<open>
  Every Go \<open>error\<close> value that the modelled functions create or pass on. The string of a
  constructor is the argument formatted into the Go message.
\<close>

datatype error =
    StatusError StatusReason
  | NilInterface string
  | UnsupportedOperation string
  | WaiterTimedOut string
  | SelectorFormat string
  | EmptySelectorKey string
  | AccessorError
  | ExternalError string
  | FailedGettingClient error

fun IsNotFound :: "error \<Rightarrow> bool" where
  "IsNotFound (StatusError r) = (r = StatusReasonNotFound)"
| "IsNotFound _ = False"

fun IsAlreadyExists :: "error \<Rightarrow> bool" where
  "IsAlreadyExists (StatusError r) = (r = StatusReasonAlreadyExists)"
| "IsAlreadyExists _ = False"

text \<open>
  A Go function of result type \<open>error\<close> either returns (\<open>None\<close> is \<open>nil\<close>) or panics.
\<close>

datatype outcome = Returns "error option" | Panics string

subsection \<open>Generic documents\<close>

text \<open>
  The content of an \<open>unstructured.Unstructured\<close>: a \<open>map[string]interface{}\<close> whose values
  are JSON values. A Go map is an association list read with \<open>map_of\<close>; the nil map is the
  empty list. (A float64 is neither a string, a slice nor a map, and behaves like \<open>JInt\<close> in
  every function below.)
\<close>

datatype json =
    JNil
  | JBool bool
  | JInt int
  | JString string
  | JSlice "json list"
  | JMap "(string \<times> json) list"

type_synonym Unstructured = "(string \<times> json) list"

text \<open>
  The accessors of \<open>k8s.io/apimachinery/.../unstructured\<close> that the source calls. Each
  returns the Go triple (value, found, err).
\<close>

fun NestedFieldNoCopy :: "json \<Rightarrow> string list \<Rightarrow> json \<times> bool \<times> error option" where
  "NestedFieldNoCopy val [] = (val, True, None)"
| "NestedFieldNoCopy val (field # fields) =
     (case val of
        JNil \<Rightarrow> (JNil, False, None)
      | JMap m \<Rightarrow>
          (case map_of m field of
             None \<Rightarrow> (JNil, False, None)
           | Some v \<Rightarrow> NestedFieldNoCopy v fields)
      | _ \<Rightarrow> (JNil, False, Some AccessorError))"

definition NestedString :: "Unstructured \<Rightarrow> string list \<Rightarrow> string \<times> bool \<times> error option" where
  "NestedString obj fields =
     (case NestedFieldNoCopy (JMap obj) fields of
        (val, found, err) \<Rightarrow>
          if \<not> found \<or> err \<noteq> None then ('''', found, err)
          else (case val of
                  JString s \<Rightarrow> (s, True, None)
                | _ \<Rightarrow> ('''', False, Some AccessorError)))"

definition NestedSlice :: "Unstructured \<Rightarrow> string list \<Rightarrow> json list \<times> bool \<times> error option" where
  "NestedSlice obj fields =
     (case NestedFieldNoCopy (JMap obj) fields of
        (val, found, err) \<Rightarrow>
          if \<not> found \<or> err \<noteq> None then ([], found, err)
          else (case val of
                  JSlice xs \<Rightarrow> (xs, True, None)
                | _ \<Rightarrow> ([], False, Some AccessorError)))"

definition getNestedString :: "Unstructured \<Rightarrow> string list \<Rightarrow> string" where
  "getNestedString obj fields =
     (case NestedString obj fields of
        (val, found, err) \<Rightarrow> if \<not> found \<or> err \<noteq> None then '''' else val)"

definition GetNamespace :: "Unstructured \<Rightarrow> string" where
  "GetNamespace u = getNestedString u [''metadata'', ''namespace'']"

definition GetName :: "Unstructured \<Rightarrow> string" where
  "GetName u = getNestedString u [''metadata'', ''name'']"

definition GetResourceVersion :: "Unstructured \<Rightarrow> string" where
  "GetResourceVersion u = getNestedString u [''metadata'', ''resourceVersion'']"

text \<open>
  \<open>SetNestedField\<close> walks the path, creating the maps that are missing, and fails (here
  \<open>None\<close>) when a value on the way is not a map. \<open>RemoveNestedField\<close> gives up silently in
  that case.
\<close>

fun SetNestedField :: "Unstructured \<Rightarrow> json \<Rightarrow> string list \<Rightarrow> Unstructured option" where
  "SetNestedField m v [] = None"
| "SetNestedField m v [field] = Some (AList.update field v m)"
| "SetNestedField m v (field # fields) =
     (case map_of m field of
        Some (JMap valMap) \<Rightarrow>
          map_option (\<lambda>sub. AList.update field (JMap sub) m) (SetNestedField valMap v fields)
      | Some _ \<Rightarrow> None
      | None \<Rightarrow>
          map_option (\<lambda>sub. AList.update field (JMap sub) m) (SetNestedField [] v fields))"

fun RemoveNestedField :: "Unstructured \<Rightarrow> string list \<Rightarrow> Unstructured" where
  "RemoveNestedField m [] = m"
| "RemoveNestedField m [field] = AList.delete field m"
| "RemoveNestedField m (field # fields) =
     (case map_of m field of
        Some (JMap x) \<Rightarrow> AList.update field (JMap (RemoveNestedField x fields)) m
      | _ \<Rightarrow> m)"

text \<open>
  \<open>SetResourceVersion\<close> removes the field for the empty version; otherwise it sets it and
  drops the error of \<open>SetNestedField\<close>, as \<open>Unstructured.setNestedField\<close> does.
\<close>

definition SetResourceVersion :: "Unstructured \<Rightarrow> string \<Rightarrow> Unstructured" where
  "SetResourceVersion u resourceVersion =
     (if length resourceVersion = 0 then RemoveNestedField u [''metadata'', ''resourceVersion'']
      else (case SetNestedField u (JString resourceVersion) [''metadata'', ''resourceVersion''] of
              None \<Rightarrow> u
            | Some u' \<Rightarrow> u'))"

subsection \<open>Resolved resources\<close>

datatype GroupVersionResource =
  GroupVersionResource (Group: string) (Version: string) (ResourceName: string)

text \<open>
  \<open>meta.RESTMapping\<close>, of which the source reads the field \<open>Resource\<close> only, and
  \<open>util.K8sUnstructuredResource\<close>. A resolved resource carries a mapping and a document
  (neither pointer is nil).
\<close>

datatype RESTMapping = RESTMapping (MappingResource: GroupVersionResource)

record K8sUnstructuredResource =
  GVR :: RESTMapping
  Resource :: Unstructured

subsection \<open>The remote system\<close>

text \<open>
  What the program does to the outside world, in order: the requests of the dynamic client
  and the blocking sleeps (durations in nanoseconds).
\<close>

datatype event =
    CreateCall GroupVersionResource string Unstructured
  | GetCall GroupVersionResource string string
  | UpdateCall GroupVersionResource string Unstructured
  | DeleteCall GroupVersionResource string string
  | Sleep int

text \<open>
  \<open>dynamic.Interface\<close>: \<open>Resource(gvr).Namespace(ns)\<close> followed by one of the four verbs.
  The answer of the remote system may depend on everything that happened before, so each
  verb takes the events so far as its first argument.
\<close>

record dynamic_Interface =
  Create :: "event list \<Rightarrow> GroupVersionResource \<Rightarrow> string \<Rightarrow> Unstructured \<Rightarrow> error + Unstructured"
  Get :: "event list \<Rightarrow> GroupVersionResource \<Rightarrow> string \<Rightarrow> string \<Rightarrow> error + Unstructured"
  Update :: "event list \<Rightarrow> GroupVersionResource \<Rightarrow> string \<Rightarrow> Unstructured \<Rightarrow> error + Unstructured"
  Delete :: "event list \<Rightarrow> GroupVersionResource \<Rightarrow> string \<Rightarrow> string \<Rightarrow> error option"

subsection \<open>Client context\<close>

text \<open>
  The struct of the client context. An interface field is \<open>None\<close> when nil. The fields
  \<open>TemplateArguments\<close> and \<open>Timestamps\<close> are not read by the functions below.
\<close>

record ClientSet =
  KubeInterface :: "unit option"
  DynamicInterface :: "dynamic_Interface option"
  DiscoveryInterface :: "unit option"
  FilesPath :: string
  WaiterInterval :: int
  WaiterTries :: int

definition operationCreate :: string where "operationCreate = ''create''"
definition operationSubmit :: string where "operationSubmit = ''submit''"
definition operationUpdate :: string where "operationUpdate = ''update''"
definition operationDelete :: string where "operationDelete = ''delete''"

definition stateCreated :: string where "stateCreated = ''created''"
definition stateDeleted :: string where "stateDeleted = ''deleted''"
definition stateUpgraded :: string where "stateUpgraded = ''upgraded''"
definition stateReady :: string where "stateReady = ''ready''"
definition stateFound :: string where "stateFound = ''found''"

definition Validate :: "ClientSet \<Rightarrow> error option" where
  "Validate kc =
     (if DynamicInterface kc = None then Some (NilInterface ''Client.DynamicInterface'')
      else if DiscoveryInterface kc = None then Some (NilInterface ''Client.DiscoveryInterface'')
      else if KubeInterface kc = None then Some (NilInterface ''Client.KubeInterface'')
      else None)"

definition getTemplatesPath :: "ClientSet \<Rightarrow> string" where
  "getTemplatesPath kc = (if FilesPath kc \<noteq> '''' then FilesPath kc else ''templates'')"

definition getWaiterInterval :: "ClientSet \<Rightarrow> int" where
  "getWaiterInterval kc = (if WaiterInterval kc > 0 then WaiterInterval kc else 1000000000 * 30)"

definition getWaiterTries :: "ClientSet \<Rightarrow> int" where
  "getWaiterTries kc = (if WaiterTries kc > 0 then WaiterTries kc else 40)"

section \<open>Operation dispatch\<close>

text \<open>
  \<open>unstructuredResourceOperation\<close>. The last argument is the list of events so far; the
  result pairs the outcome with the events after the call. Calling a method of the nil
  \<open>DynamicInterface\<close> panics.
\<close>

definition unstructuredResourceOperation ::
  "ClientSet \<Rightarrow> string \<Rightarrow> string \<Rightarrow> K8sUnstructuredResource \<Rightarrow> event list \<Rightarrow> outcome \<times> event list" where
  "unstructuredResourceOperation kc operation ns0 unstructuredResource tr =
     (let gvr = GVR unstructuredResource;
          resource = Resource unstructuredResource;
          ns = (if ns0 = '''' then GetNamespace resource else ns0)
      in
      if operation = operationCreate \<or> operation = operationSubmit then
        (case DynamicInterface kc of
           None \<Rightarrow> (Panics ''nil pointer dereference'', tr)
         | Some dyn \<Rightarrow>
             (case Create dyn tr (MappingResource gvr) ns resource of
                Inl err \<Rightarrow>
                  (if IsAlreadyExists err then Returns None else Returns (Some err),
                   tr @ [CreateCall (MappingResource gvr) ns resource])
              | Inr _ \<Rightarrow> (Returns None, tr @ [CreateCall (MappingResource gvr) ns resource])))
      else if operation = operationUpdate then
        (case DynamicInterface kc of
           None \<Rightarrow> (Panics ''nil pointer dereference'', tr)
         | Some dyn \<Rightarrow>
             (let tr1 = tr @ [GetCall (MappingResource gvr) ns (GetName resource)] in
              case Get dyn tr (MappingResource gvr) ns (GetName resource) of
                Inl err \<Rightarrow> (Returns (Some err), tr1)
              | Inr currentResourceVersion \<Rightarrow>
                  (let resource' = SetResourceVersion resource (GetResourceVersion currentResourceVersion);
                       tr2 = tr1 @ [UpdateCall (MappingResource gvr) ns resource']
                   in case Update dyn tr1 (MappingResource gvr) ns resource' of
                        Inl err \<Rightarrow> (Returns (Some err), tr2)
                      | Inr _ \<Rightarrow> (Returns None, tr2))))
      else if operation = operationDelete then
        (case DynamicInterface kc of
           None \<Rightarrow> (Panics ''nil pointer dereference'', tr)
         | Some dyn \<Rightarrow>
             (case Delete dyn tr (MappingResource gvr) ns (GetName resource) of
                Some err \<Rightarrow>
                  (if IsNotFound err then Returns None else Returns (Some err),
                   tr @ [DeleteCall (MappingResource gvr) ns (GetName resource)])
              | None \<Rightarrow> (Returns None, tr @ [DeleteCall (MappingResource gvr) ns (GetName resource)])))
      else (Returns (Some (UnsupportedOperation operation)), tr))"

section \<open>External collaborators\<close>

text \<open>
  Functions the polling code calls that live outside the files verified here. They are
  parameters of the model:
  \<^item> \<open>GetResourceFromYaml path\<close> is \<open>util.GetResourceFromYaml\<close> applied to the path, the
    discovery interface and the template arguments of the client context;
  \<^item> \<open>Join\<close> is \<open>filepath.Join\<close>;
  \<^item> \<open>Title\<close> is \<open>cases.Title(language.English).String\<close>;
  \<^item> \<open>WalkEntries root\<close> lists what \<open>filepath.Walk\<close> visits under the root, in its lexical
    order;
  \<^item> \<open>DiscoverClients\<close> is the method of that name: its error and the client context it leaves.
\<close>

record walk_entry =
  path :: string
  IsDir :: bool
  walkErr :: "error option"

record externals =
  GetResourceFromYaml :: "string \<Rightarrow> error + K8sUnstructuredResource"
  Join :: "string \<Rightarrow> string \<Rightarrow> string"
  Title :: "string \<Rightarrow> string"
  WalkEntries :: "string \<Rightarrow> walk_entry list"
  DiscoverClients :: "ClientSet \<Rightarrow> error option \<times> ClientSet"

definition getResourcePath :: "externals \<Rightarrow> ClientSet \<Rightarrow> string \<Rightarrow> string" where
  "getResourcePath ext kc resourceFileName = Join ext (getTemplatesPath kc) resourceFileName"

text \<open>
  Modelled from the spec: \<open>util.DeleteEmpty\<close> belongs to the package internal/utilities,
  whose source is not among the files verified here. The selector syntax of the spec
  (a dotted path, \<open>=\<close>, a value, the path split on dots) and the selector of the
  repository's test (\<open>.metadata.labels.someTestKey=someTestValue\<close>, accepted with its
  leading dot) fix what it does: it drops the empty strings of a slice and keeps the others
  in order.
\<close>

definition DeleteEmpty :: "string list \<Rightarrow> string list" where
  "DeleteEmpty s = filter (\<lambda>str. str \<noteq> []) s"

text \<open>
  Go's \<open>strings.Split\<close> for a separator of one byte, \<open>strings.EqualFold\<close> on ASCII letters
  and \<open>filepath.Ext\<close> on a Unix path.
\<close>

fun Split :: "string \<Rightarrow> char \<Rightarrow> string list" where
  "Split [] sep = [[]]"
| "Split (c # cs) sep =
     (if c = sep then [] # Split cs sep
      else (case Split cs sep of
              [] \<Rightarrow> [[c]]
            | w # ws \<Rightarrow> (c # w) # ws))"

definition toLower :: "char \<Rightarrow> char" where
  "toLower c =
     (case map_of (zip ''ABCDEFGHIJKLMNOPQRSTUVWXYZ'' ''abcdefghijklmnopqrstuvwxyz'') c of
        Some d \<Rightarrow> d
      | None \<Rightarrow> c)"

definition EqualFold :: "string \<Rightarrow> string \<Rightarrow> bool" where
  "EqualFold s t = (map toLower s = map toLower t)"

fun ExtScan :: "string \<Rightarrow> string \<Rightarrow> string" where
  "ExtScan [] acc = []"
| "ExtScan (c # cs) acc =
     (if c = CHR ''/'' then []
      else if c = CHR ''.'' then c # acc
      else ExtScan cs (c # acc))"

definition Ext :: "string \<Rightarrow> string" where
  "Ext p = ExtScan (rev p) []"

section \<open>Convergence polling\<close>

subsection \<open>Existence poll\<close>

text \<open>
  The loop of \<open>ResourceShouldBe\<close>, from the value of \<open>counter\<close> on; \<open>fetched\<close> is either the
  error that ends the function or the value of \<open>exists\<close> after the fetch. The Go \<open>switch\<close>
  has no default: for any other state token the loop body falls through to the increment.
  The counter is a Go \<open>int\<close> that never passes the number of tries, so it cannot wrap, and
  is an \<open>int\<close> here.
\<close>

function ResourceShouldBe_loop ::
  "ClientSet \<Rightarrow> dynamic_Interface \<Rightarrow> RESTMapping \<Rightarrow> Unstructured \<Rightarrow> string \<Rightarrow> int \<Rightarrow> event list
     \<Rightarrow> outcome \<times> event list" where
  "ResourceShouldBe_loop kc dyn gvr resource state counter tr =
     (if counter \<ge> getWaiterTries kc
      then (Returns (Some (WaiterTimedOut ''waiter timed out waiting for resource state'')), tr)
      else
        (let tr1 = tr @ [GetCall (MappingResource gvr) (GetNamespace resource) (GetName resource)];
             tr2 = tr1 @ [Sleep (getWaiterInterval kc)];
             fetched =
               (case Get dyn tr (MappingResource gvr) (GetNamespace resource) (GetName resource) of
                  Inl err \<Rightarrow> if \<not> IsNotFound err then Inl err else Inr False
                | Inr _ \<Rightarrow> Inr True)
         in case fetched of
              Inl err \<Rightarrow> (Returns (Some err), tr1)
            | Inr exists \<Rightarrow>
                (if state = stateDeleted then
                   (if \<not> exists then (Returns None, tr1)
                    else ResourceShouldBe_loop kc dyn gvr resource state (counter + 1) tr2)
                 else if state = stateCreated then
                   (if exists then (Returns None, tr1)
                    else ResourceShouldBe_loop kc dyn gvr resource state (counter + 1) tr2)
                 else ResourceShouldBe_loop kc dyn gvr resource state (counter + 1) tr2)))"
  by pat_completeness auto
termination
  by (relation "measure (\<lambda>(kc, dyn, gvr, resource, state, counter, tr). nat (getWaiterTries kc - counter))")
     auto

definition ResourceShouldBe ::
  "externals \<Rightarrow> ClientSet \<Rightarrow> string \<Rightarrow> string \<Rightarrow> event list \<Rightarrow> outcome \<times> event list" where
  "ResourceShouldBe ext kc resourceFileName state tr =
     (case Validate kc of
        Some err \<Rightarrow> (Returns (Some err), tr)
      | None \<Rightarrow>
          (case GetResourceFromYaml ext (getResourcePath ext kc resourceFileName) of
             Inl err \<Rightarrow> (Returns (Some err), tr)
           | Inr unstructuredResource \<Rightarrow>
               (case DynamicInterface kc of
                  None \<Rightarrow> (Panics ''nil pointer dereference'', tr)
                | Some dyn \<Rightarrow>
                    ResourceShouldBe_loop kc dyn (GVR unstructuredResource)
                      (Resource unstructuredResource) state 0 tr)))"

subsection \<open>Field-convergence poll\<close>

function ResourceShouldConvergeToSelector_loop ::
  "ClientSet \<Rightarrow> dynamic_Interface \<Rightarrow> RESTMapping \<Rightarrow> Unstructured \<Rightarrow> string list \<Rightarrow> string \<Rightarrow> int
     \<Rightarrow> event list \<Rightarrow> outcome \<times> event list" where
  "ResourceShouldConvergeToSelector_loop kc dyn gvr resource keySlice val counter tr =
     (if counter \<ge> getWaiterTries kc
      then (Returns (Some (WaiterTimedOut ''waiter timed out waiting for resource'')), tr)
      else
        (let tr1 = tr @ [GetCall (MappingResource gvr) (GetNamespace resource) (GetName resource)];
             tr2 = tr1 @ [Sleep (getWaiterInterval kc)]
         in case Get dyn tr (MappingResource gvr) (GetNamespace resource) (GetName resource) of
              Inl err \<Rightarrow> (Returns (Some err), tr1)
            | Inr cr \<Rightarrow>
                (case NestedString cr keySlice of
                   (v, ok, err) \<Rightarrow>
                     if ok then
                       (if err \<noteq> None then (Returns err, tr1)
                        else if EqualFold v val then (Returns None, tr1)
                        else ResourceShouldConvergeToSelector_loop kc dyn gvr resource keySlice val
                               (counter + 1) tr2)
                     else ResourceShouldConvergeToSelector_loop kc dyn gvr resource keySlice val
                            (counter + 1) tr2)))"
  by pat_completeness auto
termination
  by (relation "measure (\<lambda>(kc, dyn, gvr, resource, keySlice, val, counter, tr).
                   nat (getWaiterTries kc - counter))")
     auto

definition ResourceShouldConvergeToSelector ::
  "externals \<Rightarrow> ClientSet \<Rightarrow> string \<Rightarrow> string \<Rightarrow> event list \<Rightarrow> outcome \<times> event list" where
  "ResourceShouldConvergeToSelector ext kc resourceFileName selector tr =
     (case Validate kc of
        Some err \<Rightarrow> (Returns (Some err), tr)
      | None \<Rightarrow>
          (let split = DeleteEmpty (Split selector CHR ''='') in
           if length split \<noteq> 2 then (Returns (Some (SelectorFormat selector)), tr)
           else
             (let key = split ! 0;
                  val = split ! 1;
                  keySlice = DeleteEmpty (Split key CHR ''.'')
              in
              if length keySlice < 1 then (Returns (Some (EmptySelectorKey selector)), tr)
              else
                (case GetResourceFromYaml ext (getResourcePath ext kc resourceFileName) of
                   Inl err \<Rightarrow> (Returns (Some err), tr)
                 | Inr unstructuredResource \<Rightarrow>
                     (case DynamicInterface kc of
                        None \<Rightarrow> (Panics ''nil pointer dereference'', tr)
                      | Some dyn \<Rightarrow>
                          ResourceShouldConvergeToSelector_loop kc dyn (GVR unstructuredResource)
                            (Resource unstructuredResource) keySlice val 0 tr)))))"

subsection \<open>Condition-match poll\<close>

text \<open>
  The \<open>for _, c := range conditions\<close> of \<open>ResourceConditionShouldBe\<close>. The scan ends with a
  match (the function returns nil), without one (the attempt is over), or in the panic of
  the unchecked type assertion \<open>condition["status"].(string)\<close>, which fails on a missing key
  (the nil interface) as on a value that is not a string.
\<close>

datatype scan = Matched | Unmatched | AssertionPanic

fun scanConditions :: "json list \<Rightarrow> string \<Rightarrow> string \<Rightarrow> scan" where
  "scanConditions [] cType expectedStatus = Unmatched"
| "scanConditions (c # conditions) cType expectedStatus =
     (case c of
        JMap condition \<Rightarrow>
          (case map_of condition ''type'' of
             None \<Rightarrow> scanConditions conditions cType expectedStatus
           | Some tp \<Rightarrow>
               (case tp of
                  JString condType \<Rightarrow>
                    (if condType = cType then
                       (case map_of condition ''status'' of
                          Some (JString status) \<Rightarrow>
                            (if status = expectedStatus then Matched
                             else scanConditions conditions cType expectedStatus)
                        | _ \<Rightarrow> AssertionPanic)
                     else scanConditions conditions cType expectedStatus)
                | _ \<Rightarrow> scanConditions conditions cType expectedStatus))
      | _ \<Rightarrow> scanConditions conditions cType expectedStatus)"

function ResourceConditionShouldBe_loop ::
  "ClientSet \<Rightarrow> dynamic_Interface \<Rightarrow> RESTMapping \<Rightarrow> Unstructured \<Rightarrow> string \<Rightarrow> string \<Rightarrow> int
     \<Rightarrow> event list \<Rightarrow> outcome \<times> event list" where
  "ResourceConditionShouldBe_loop kc dyn gvr resource cType expectedStatus counter tr =
     (if counter \<ge> getWaiterTries kc
      then (Returns (Some (WaiterTimedOut ''waiter timed out waiting for resource state'')), tr)
      else
        (let tr1 = tr @ [GetCall (MappingResource gvr) (GetNamespace resource) (GetName resource)];
             tr2 = tr1 @ [Sleep (getWaiterInterval kc)]
         in case Get dyn tr (MappingResource gvr) (GetNamespace resource) (GetName resource) of
              Inl err \<Rightarrow> (Returns (Some err), tr1)
            | Inr cr \<Rightarrow>
                (case NestedSlice cr [''status'', ''conditions''] of
                   (conditions, ok, err) \<Rightarrow>
                     if ok then
                       (if err \<noteq> None then (Returns err, tr1)
                        else
                          (case scanConditions conditions cType expectedStatus of
                             Matched \<Rightarrow> (Returns None, tr1)
                           | AssertionPanic \<Rightarrow>
                               (Panics ''interface conversion: interface {} is not string'', tr1)
                           | Unmatched \<Rightarrow>
                               ResourceConditionShouldBe_loop kc dyn gvr resource cType expectedStatus
                                 (counter + 1) tr2))
                     else ResourceConditionShouldBe_loop kc dyn gvr resource cType expectedStatus
                            (counter + 1) tr2)))"
  by pat_completeness auto
termination
  by (relation "measure (\<lambda>(kc, dyn, gvr, resource, cType, expectedStatus, counter, tr).
                   nat (getWaiterTries kc - counter))")
     auto

definition ResourceConditionShouldBe ::
  "externals \<Rightarrow> ClientSet \<Rightarrow> string \<Rightarrow> string \<Rightarrow> string \<Rightarrow> event list \<Rightarrow> outcome \<times> event list" where
  "ResourceConditionShouldBe ext kc resourceFileName cType status tr =
     (let expectedStatus = Title ext status in
      case Validate kc of
        Some err \<Rightarrow> (Returns (Some err), tr)
      | None \<Rightarrow>
          (case GetResourceFromYaml ext (getResourcePath ext kc resourceFileName) of
             Inl err \<Rightarrow> (Returns (Some err), tr)
           | Inr unstructuredResource \<Rightarrow>
               (case DynamicInterface kc of
                  None \<Rightarrow> (Panics ''nil pointer dereference'', tr)
                | Some dyn \<Rightarrow>
                    ResourceConditionShouldBe_loop kc dyn (GVR unstructuredResource)
                      (Resource unstructuredResource) cType expectedStatus 0 tr)))"

section \<open>Bulk directory delete\<close>

text \<open>
  The two callbacks of \<open>DeleteResourcesAtPath\<close> and the walk that applies a callback to each
  entry in order and stops at the first error (the callbacks never return \<open>SkipDir\<close>).
\<close>

definition deleteFn :: "externals \<Rightarrow> ClientSet \<Rightarrow> walk_entry \<Rightarrow> event list \<Rightarrow> outcome \<times> event list" where
  "deleteFn ext kc entry tr =
     (case walkErr entry of
        Some err \<Rightarrow> (Returns (Some err), tr)
      | None \<Rightarrow>
          if IsDir entry \<or> Ext (path entry) \<noteq> ''.yaml'' then (Returns None, tr)
          else
            (case GetResourceFromYaml ext (path entry) of
               Inl err \<Rightarrow> (Returns (Some err), tr)
             | Inr unstructuredResource \<Rightarrow>
                 (let gvr = GVR unstructuredResource; resource = Resource unstructuredResource in
                  case DynamicInterface kc of
                    None \<Rightarrow> (Panics ''nil pointer dereference'', tr)
                  | Some dyn \<Rightarrow>
                      (case Delete dyn tr (MappingResource gvr) (GetNamespace resource) (GetName resource) of
                         Some err \<Rightarrow>
                           (Returns (Some err),
                            tr @ [DeleteCall (MappingResource gvr) (GetNamespace resource) (GetName resource)])
                       | None \<Rightarrow>
                           (Returns None,
                            tr @ [DeleteCall (MappingResource gvr) (GetNamespace resource) (GetName resource)])))))"

function waitFn_loop ::
  "ClientSet \<Rightarrow> dynamic_Interface \<Rightarrow> RESTMapping \<Rightarrow> Unstructured \<Rightarrow> int \<Rightarrow> event list
     \<Rightarrow> outcome \<times> event list" where
  "waitFn_loop kc dyn gvr resource counter tr =
     (if counter \<ge> getWaiterTries kc
      then (Returns (Some (WaiterTimedOut ''waiter timed out waiting for deletion'')), tr)
      else
        (let tr1 = tr @ [GetCall (MappingResource gvr) (GetNamespace resource) (GetName resource)];
             tr2 = tr1 @ [Sleep (getWaiterInterval kc)]
         in case Get dyn tr (MappingResource gvr) (GetNamespace resource) (GetName resource) of
              Inl err \<Rightarrow>
                (if IsNotFound err then (Returns None, tr1)
                 else waitFn_loop kc dyn gvr resource (counter + 1) tr2)
            | Inr _ \<Rightarrow> waitFn_loop kc dyn gvr resource (counter + 1) tr2))"
  by pat_completeness auto
termination
  by (relation "measure (\<lambda>(kc, dyn, gvr, resource, counter, tr). nat (getWaiterTries kc - counter))")
     auto

definition waitFn :: "externals \<Rightarrow> ClientSet \<Rightarrow> walk_entry \<Rightarrow> event list \<Rightarrow> outcome \<times> event list" where
  "waitFn ext kc entry tr =
     (case walkErr entry of
        Some err \<Rightarrow> (Returns (Some err), tr)
      | None \<Rightarrow>
          if IsDir entry \<or> Ext (path entry) \<noteq> ''.yaml'' then (Returns None, tr)
          else
            (case GetResourceFromYaml ext (path entry) of
               Inl err \<Rightarrow> (Returns (Some err), tr)
             | Inr unstructuredResource \<Rightarrow>
                 (case DynamicInterface kc of
                    None \<Rightarrow> (Panics ''nil pointer dereference'', tr)
                  | Some dyn \<Rightarrow>
                      waitFn_loop kc dyn (GVR unstructuredResource) (Resource unstructuredResource) 0 tr)))"

fun Walk ::
  "(walk_entry \<Rightarrow> event list \<Rightarrow> outcome \<times> event list) \<Rightarrow> walk_entry list \<Rightarrow> event list
     \<Rightarrow> outcome \<times> event list" where
  "Walk fn [] tr = (Returns None, tr)"
| "Walk fn (entry # entries) tr =
     (case fn entry tr of
        (Returns None, tr') \<Rightarrow> Walk fn entries tr'
      | (out, tr') \<Rightarrow> (out, tr'))"

definition DeleteResourcesAtPath ::
  "externals \<Rightarrow> ClientSet \<Rightarrow> string \<Rightarrow> event list \<Rightarrow> outcome \<times> event list" where
  "DeleteResourcesAtPath ext kc0 resourcesPath tr =
     (case DiscoverClients ext kc0 of
        (Some err, kc) \<Rightarrow> (Returns (Some (FailedGettingClient err)), tr)
      | (None, kc) \<Rightarrow>
          (case Walk (deleteFn ext kc) (WalkEntries ext resourcesPath) tr of
             (Returns None, tr1) \<Rightarrow> Walk (waitFn ext kc) (WalkEntries ext resourcesPath) tr1
           | (out, tr1) \<Rightarrow> (out, tr1)))"

section \<open>Observations on event lists\<close>

text \<open>The namespace a request was sent to, and the number of fetches in a list of events.\<close>

fun requestNamespace :: "event \<Rightarrow> string option" where
  "requestNamespace (CreateCall g ns d) = Some ns"
| "requestNamespace (GetCall g ns n) = Some ns"
| "requestNamespace (UpdateCall g ns d) = Some ns"
| "requestNamespace (DeleteCall g ns n) = Some ns"
| "requestNamespace (Sleep d) = None"

fun isGetCall :: "event \<Rightarrow> bool" where
  "isGetCall (GetCall g ns n) = True"
| "isGetCall _ = False"

definition fetches :: "event list \<Rightarrow> nat" where
  "fetches tr = length (filter isGetCall tr)"

fun IsFormatError :: "error \<Rightarrow> bool" where
  "IsFormatError (SelectorFormat s) = True"
| "IsFormatError (EmptySelectorKey s) = True"
| "IsFormatError _ = False"

section \<open>Concrete inputs\<close>

text \<open>A deployment document with an embedded namespace, resolved to its mapping.\<close>

definition deployments :: GroupVersionResource where
  "deployments = GroupVersionResource ''apps'' ''v1'' ''deployments''"

definition webDoc :: Unstructured where
  "webDoc =
     [(''apiVersion'', JString ''apps/v1''),
      (''kind'', JString ''Deployment''),
      (''metadata'', JMap [(''name'', JString ''web''), (''namespace'', JString ''prod'')])]"

definition webResource :: K8sUnstructuredResource where
  "webResource = \<lparr>GVR = RESTMapping deployments, Resource = webDoc\<rparr>"

text \<open>
  A remote system that stores what was created: the latest create, update or delete of a
  resource among the events so far decides whether it exists.
\<close>

fun latest :: "event list \<Rightarrow> GroupVersionResource \<Rightarrow> string \<Rightarrow> string \<Rightarrow> Unstructured option" where
  "latest [] g ns n = None"
| "latest (CreateCall g' ns' d # es) g ns n =
     (if g' = g \<and> ns' = ns \<and> GetName d = n then Some d else latest es g ns n)"
| "latest (UpdateCall g' ns' d # es) g ns n =
     (if g' = g \<and> ns' = ns \<and> GetName d = n then Some d else latest es g ns n)"
| "latest (DeleteCall g' ns' n' # es) g ns n =
     (if g' = g \<and> ns' = ns \<and> n' = n then None else latest es g ns n)"
| "latest (e # es) g ns n = latest es g ns n"

definition storeDynamic :: dynamic_Interface where
  "storeDynamic =
     \<lparr>Create = (\<lambda>h g ns d. case latest (rev h) g ns (GetName d) of
                    Some _ \<Rightarrow> Inl (StatusError StatusReasonAlreadyExists)
                  | None \<Rightarrow> Inr d),
      Get = (\<lambda>h g ns n. case latest (rev h) g ns n of
                 Some d \<Rightarrow> Inr d
               | None \<Rightarrow> Inl (StatusError StatusReasonNotFound)),
      Update = (\<lambda>h g ns d. case latest (rev h) g ns (GetName d) of
                    Some _ \<Rightarrow> Inr d
                  | None \<Rightarrow> Inl (StatusError StatusReasonNotFound)),
      Delete = (\<lambda>h g ns n. case latest (rev h) g ns n of
                    Some _ \<Rightarrow> None
                  | None \<Rightarrow> Some (StatusError StatusReasonNotFound))\<rparr>"

text \<open>
  A remote system on which the resource stays: every fetch answers with the given
  document, and a delete is accepted without effect.
\<close>

definition presentDynamic :: "Unstructured \<Rightarrow> dynamic_Interface" where
  "presentDynamic doc =
     \<lparr>Create = (\<lambda>h g ns d. Inl (StatusError StatusReasonAlreadyExists)),
      Get = (\<lambda>h g ns n. Inr doc),
      Update = (\<lambda>h g ns d. Inr d),
      Delete = (\<lambda>h g ns n. None)\<rparr>"

text \<open>A remote system that accepts a delete and then refuses every fetch.\<close>

definition forbiddenDynamic :: dynamic_Interface where
  "forbiddenDynamic =
     \<lparr>Create = (\<lambda>h g ns d. Inl (StatusError (StatusReasonOther ''Forbidden''))),
      Get = (\<lambda>h g ns n. Inl (StatusError (StatusReasonOther ''Forbidden''))),
      Update = (\<lambda>h g ns d. Inl (StatusError (StatusReasonOther ''Forbidden''))),
      Delete = (\<lambda>h g ns n. None)\<rparr>"

definition client :: "dynamic_Interface \<Rightarrow> int \<Rightarrow> ClientSet" where
  "client dyn tries =
     \<lparr>KubeInterface = Some (), DynamicInterface = Some dyn, DiscoveryInterface = Some (),
      FilesPath = [], WaiterInterval = 1000000000, WaiterTries = tries\<rparr>"

text \<open>
  A templates directory holding the one file \<open>web.yaml\<close>, which resolves to the deployment.
\<close>

definition templates :: externals where
  "templates =
     \<lparr>GetResourceFromYaml =
        (\<lambda>p. if p = ''templates/web.yaml'' then Inr webResource else Inl (ExternalError p)),
      Join = (\<lambda>dir name. dir @ ''/'' @ name),
      Title = (\<lambda>s. if s = ''true'' then ''True'' else s),
      WalkEntries =
        (\<lambda>root. [\<lparr>path = root, IsDir = True, walkErr = None\<rparr>,
                  \<lparr>path = root @ ''/web.yaml'', IsDir = False, walkErr = None\<rparr>]),
      DiscoverClients = (\<lambda>kc. (None, kc))\<rparr>"

text \<open>The deployment as fetched, with one condition that names its type and no status.\<close>

definition webDocNoStatus :: Unstructured where
  "webDocNoStatus =
     webDoc @ [(''status'', JMap [(''conditions'', JSlice [JMap [(''type'', JString ''Ready'')]])])]"

text \<open>The live deployment, carrying the version token of the remote system.\<close>

definition webDocLive :: Unstructured where
  "webDocLive =
     [(''apiVersion'', JString ''apps/v1''),
      (''kind'', JString ''Deployment''),
      (''metadata'',
       JMap [(''name'', JString ''web''), (''namespace'', JString ''prod''),
             (''resourceVersion'', JString ''41'')])]"

section \<open>Properties of the dispatcher\<close>

lemmas op_names = operationCreate_def operationSubmit_def operationUpdate_def operationDelete_def

declare ResourceShouldBe_loop.simps [simp del]
declare ResourceShouldConvergeToSelector_loop.simps [simp del]
declare ResourceConditionShouldBe_loop.simps [simp del]
declare waitFn_loop.simps [simp del]

text \<open>
  C7. An operation token other than create, submit, update and delete makes the dispatcher
  return the unsupported-operation error for that token, and the list of events is
  unchanged: no request reached the remote system. This holds for a nil dynamic client too.
\<close>

theorem unsupported_operation_no_remote_call:
  assumes "operation \<notin> {''create'', ''submit'', ''update'', ''delete''}"
  shows "unstructuredResourceOperation kc operation ns r tr =
           (Returns (Some (UnsupportedOperation operation)), tr)"
  using assms by (simp add: unstructuredResourceOperation_def op_names Let_def)

theorem unsupported_operation_no_remote_call_witness:
  "''patch'' \<notin> {''create'', ''submit'', ''update'', ''delete''} \<and>
   unstructuredResourceOperation (client storeDynamic 3) ''patch'' [] webResource [] =
     (Returns (Some (UnsupportedOperation ''patch'')), [])"
  using unsupported_operation_no_remote_call [of "''patch''" "client storeDynamic 3" "[]" webResource "[]"]
  by simp

text \<open>
  C9. Every request that a dispatch sends goes to the caller's namespace when that is not
  empty, and to the namespace embedded in the document otherwise; with a dynamic client
  and a supported operation at least one request is sent. The document itself is sent as
  it is: its embedded namespace is not rewritten.
\<close>

theorem dispatch_namespace_override_wins:
  "\<exists>new. snd (unstructuredResourceOperation kc operation ns r tr) = tr @ new \<and>
     (\<forall>e \<in> set new. requestNamespace e = Some (if ns \<noteq> [] then ns else GetNamespace (Resource r))) \<and>
     (DynamicInterface kc \<noteq> None \<and> operation \<in> {''create'', ''submit'', ''update'', ''delete''}
        \<longrightarrow> new \<noteq> [])"
  by (auto simp: unstructuredResourceOperation_def op_names Let_def
           split: option.splits sum.splits)

theorem dispatch_namespace_override_wins_witness:
  "GetNamespace (Resource webResource) = ''prod'' \<and>
   DynamicInterface (client storeDynamic 3) \<noteq> None \<and>
   snd (unstructuredResourceOperation (client storeDynamic 3) ''create'' ''test-ns'' webResource []) =
     [CreateCall deployments ''test-ns'' webDoc] \<and>
   requestNamespace (CreateCall deployments ''test-ns'' webDoc) = Some ''test-ns'' \<and>
   snd (unstructuredResourceOperation (client storeDynamic 3) ''create'' [] webResource []) =
     [CreateCall deployments ''prod'' webDoc]"
proof -
  have ev: "GetNamespace (Resource webResource) = ''prod'' \<and>
    snd (unstructuredResourceOperation (client storeDynamic 3) ''create'' ''test-ns'' webResource []) =
     [CreateCall deployments ''test-ns'' webDoc] \<and>
    snd (unstructuredResourceOperation (client storeDynamic 3) ''create'' [] webResource []) =
     [CreateCall deployments ''prod'' webDoc]"
    by code_simp
  show ?thesis
    using dispatch_namespace_override_wins
            [of "client storeDynamic 3" "''create''" "''test-ns''" webResource "[]"] ev
    by (simp add: client_def)
qed

text \<open>
  C2. A create or submit dispatch whose request the remote system answers with
  already-exists returns nil, having sent that one request. Hence a second create of the
  same resource returns nil whenever the remote system answers the repeated request with
  success or with already-exists, whatever the first call returned.
\<close>

theorem create_already_exists_is_success:
  assumes "operation = ''create'' \<or> operation = ''submit''"
    and "DynamicInterface kc = Some dyn"
    and "used = (if ns = [] then GetNamespace (Resource r) else ns)"
    and "request = CreateCall (MappingResource (GVR r)) used (Resource r)"
  shows "(\<forall>err. Create dyn tr (MappingResource (GVR r)) used (Resource r) = Inl err \<and> IsAlreadyExists err
            \<longrightarrow> unstructuredResourceOperation kc operation ns r tr = (Returns None, tr @ [request])) \<and>
         (\<forall>tr1. tr1 = snd (unstructuredResourceOperation kc operation ns r tr) \<and>
             (\<forall>err. Create dyn tr1 (MappingResource (GVR r)) used (Resource r) = Inl err
                      \<longrightarrow> IsAlreadyExists err)
            \<longrightarrow> unstructuredResourceOperation kc operation ns r tr1 = (Returns None, tr1 @ [request]))"
  using assms
  by (auto simp: unstructuredResourceOperation_def op_names Let_def split: sum.splits)

theorem create_already_exists_is_success_witness:
  "unstructuredResourceOperation (client storeDynamic 3) ''create'' [] webResource [] =
     (Returns None, [CreateCall deployments ''prod'' webDoc]) \<and>
   Create storeDynamic [CreateCall deployments ''prod'' webDoc] deployments ''prod'' webDoc =
     Inl (StatusError StatusReasonAlreadyExists) \<and>
   IsAlreadyExists (StatusError StatusReasonAlreadyExists) \<and>
   unstructuredResourceOperation (client storeDynamic 3) ''create'' [] webResource
       [CreateCall deployments ''prod'' webDoc] =
     (Returns None, [CreateCall deployments ''prod'' webDoc, CreateCall deployments ''prod'' webDoc])"
proof -
  have dyn: "DynamicInterface (client storeDynamic 3) = Some storeDynamic"
    by (simp add: client_def)
  have used: "''prod'' = (if [] = [] then GetNamespace (Resource webResource) else [])"
    by code_simp
  have gvr: "MappingResource (GVR webResource) = deployments" "Resource webResource = webDoc"
    by (simp_all add: webResource_def)
  have answer: "Create storeDynamic [CreateCall deployments ''prod'' webDoc] deployments ''prod'' webDoc =
     Inl (StatusError StatusReasonAlreadyExists)"
    by code_simp
  have first: "unstructuredResourceOperation (client storeDynamic 3) ''create'' [] webResource [] =
     (Returns None, [CreateCall deployments ''prod'' webDoc])"
    by code_simp
  from create_already_exists_is_success [OF disjI1 dyn used refl, OF refl, of "[CreateCall deployments ''prod'' webDoc]"]
  have "unstructuredResourceOperation (client storeDynamic 3) ''create'' [] webResource
       [CreateCall deployments ''prod'' webDoc] =
     (Returns None, [CreateCall deployments ''prod'' webDoc, CreateCall deployments ''prod'' webDoc])"
    using answer by (simp add: gvr)
  with first answer show ?thesis by simp
qed

lemma GetName_nonempty_metadata:
  assumes "GetName r \<noteq> []"
  shows "\<exists>m. map_of r ''metadata'' = Some (JMap m)"
  using assms
  by (auto simp: GetName_def getNestedString_def NestedString_def
           split: option.splits json.splits prod.splits if_splits)

lemma SetResourceVersion_stamps:
  assumes "GetName r \<noteq> []"
  shows "GetResourceVersion (SetResourceVersion r v) = v"
proof -
  from GetName_nonempty_metadata[OF assms] obtain m where m: "map_of r ''metadata'' = Some (JMap m)"
    by blast
  show ?thesis
  proof (cases "v = []")
    case True
    then show ?thesis using m
      by (simp add: SetResourceVersion_def GetResourceVersion_def getNestedString_def
            NestedString_def AList.update_conv' AList.delete_conv')
  next
    case False
    then show ?thesis using m
      by (simp add: SetResourceVersion_def GetResourceVersion_def getNestedString_def
            NestedString_def AList.update_conv')
  qed
qed

text \<open>
  C8. An update dispatch first sends the fetch. When the fetch fails, with not-found or
  with any other error, that error is returned and the fetch is the only request sent.
  When it succeeds, the one further request is the update of the document on which the
  version token of the fetched resource has been set, sent after the fetch, and the
  dispatch returns what the update returns; for a document that has a name, the version
  token read back from the submitted document is the fetched one.
\<close>

theorem update_fetches_stamps_then_submits:
  assumes "DynamicInterface kc = Some dyn"
    and "used = (if ns = [] then GetNamespace (Resource r) else ns)"
    and "g = MappingResource (GVR r)"
    and "fetch = GetCall g used (GetName (Resource r))"
  shows "(\<forall>err. Get dyn tr g used (GetName (Resource r)) = Inl err
            \<longrightarrow> unstructuredResourceOperation kc ''update'' ns r tr = (Returns (Some err), tr @ [fetch])) \<and>
         (\<forall>cur. Get dyn tr g used (GetName (Resource r)) = Inr cur
            \<longrightarrow> (let doc = SetResourceVersion (Resource r) (GetResourceVersion cur) in
                  unstructuredResourceOperation kc ''update'' ns r tr =
                    (Returns (case Update dyn (tr @ [fetch]) g used doc of Inl err \<Rightarrow> Some err | Inr x \<Rightarrow> None),
                     tr @ [fetch, UpdateCall g used doc]) \<and>
                  (GetName (Resource r) \<noteq> [] \<longrightarrow> GetResourceVersion doc = GetResourceVersion cur)))"
  using assms
  by (auto simp: unstructuredResourceOperation_def op_names Let_def SetResourceVersion_stamps
           split: sum.splits)

theorem update_fetches_stamps_then_submits_witness:
  "Get storeDynamic [] deployments ''prod'' ''web'' = Inl (StatusError StatusReasonNotFound) \<and>
   unstructuredResourceOperation (client storeDynamic 3) ''update'' [] webResource [] =
     (Returns (Some (StatusError StatusReasonNotFound)), [GetCall deployments ''prod'' ''web'']) \<and>
   Get (presentDynamic webDocLive) [] deployments ''prod'' ''web'' = Inr webDocLive \<and>
   GetResourceVersion webDocLive = ''41'' \<and>
   GetResourceVersion webDoc = [] \<and>
   unstructuredResourceOperation (client (presentDynamic webDocLive) 3) ''update'' [] webResource [] =
     (Returns None, [GetCall deployments ''prod'' ''web'', UpdateCall deployments ''prod'' webDocLive])"
proof -
  have used: "''prod'' = (if [] = [] then GetNamespace (Resource webResource) else [])"
    by code_simp
  have g: "deployments = MappingResource (GVR webResource)"
    by (simp add: webResource_def)
  have fetch: "GetCall deployments ''prod'' ''web'' = GetCall deployments ''prod'' (GetName (Resource webResource))"
    by code_simp
  have name: "GetName (Resource webResource) = ''web''"
    by code_simp
  have absent: "Get storeDynamic [] deployments ''prod'' ''web'' = Inl (StatusError StatusReasonNotFound)"
    by code_simp
  have live: "Get (presentDynamic webDocLive) [] deployments ''prod'' ''web'' = Inr webDocLive"
    by (simp add: presentDynamic_def)
  have versions: "GetResourceVersion webDocLive = ''41''" "GetResourceVersion webDoc = []"
    "SetResourceVersion (Resource webResource) ''41'' = webDocLive"
    by code_simp+
  have accepted: "Update (presentDynamic webDocLive) [GetCall deployments ''prod'' ''web''] deployments ''prod''
          webDocLive = Inr webDocLive"
    by (simp add: presentDynamic_def)
  have d1: "DynamicInterface (client storeDynamic 3) = Some storeDynamic"
    and d2: "DynamicInterface (client (presentDynamic webDocLive) 3) = Some (presentDynamic webDocLive)"
    by (simp_all add: client_def)
  from update_fetches_stamps_then_submits [OF d1 used g fetch, of "[]"] absent
  have failed: "unstructuredResourceOperation (client storeDynamic 3) ''update'' [] webResource [] =
     (Returns (Some (StatusError StatusReasonNotFound)), [GetCall deployments ''prod'' ''web''])"
    by (simp add: name)
  from update_fetches_stamps_then_submits [OF d2 used g fetch, of "[]"] live
  have "unstructuredResourceOperation (client (presentDynamic webDocLive) 3) ''update'' [] webResource [] =
     (Returns None, [GetCall deployments ''prod'' ''web'', UpdateCall deployments ''prod'' webDocLive])"
    by (simp add: name versions accepted Let_def)
  with failed absent live versions show ?thesis by simp
qed

text \<open>
  The delete branch of the dispatcher treats not-found as success; the callback of the
  bulk delete returns whatever error the delete request gave.
\<close>

lemma dispatch_delete_not_found_is_success:
  assumes "DynamicInterface kc = Some dyn"
    and "used = (if ns = [] then GetNamespace (Resource r) else ns)"
    and "Delete dyn tr (MappingResource (GVR r)) used (GetName (Resource r)) = Some err"
    and "IsNotFound err"
  shows "unstructuredResourceOperation kc ''delete'' ns r tr =
           (Returns None, tr @ [DeleteCall (MappingResource (GVR r)) used (GetName (Resource r))])"
  using assms by (simp add: unstructuredResourceOperation_def op_names Let_def)

lemma deleteFn_propagates_error:
  assumes "walkErr entry = None" "\<not> IsDir entry" "Ext (path entry) = ''.yaml''"
    and "GetResourceFromYaml ext (path entry) = Inr r"
    and "DynamicInterface kc = Some dyn"
    and "Delete dyn tr (MappingResource (GVR r)) (GetNamespace (Resource r)) (GetName (Resource r)) = Some err"
  shows "fst (deleteFn ext kc entry tr) = Returns (Some err)"
  using assms by (simp add: deleteFn_def Let_def)

text \<open>
  C1. The claim fails in phase one of the bulk directory delete. The templates directory
  holds one resource file and the remote system holds nothing, so the delete request is
  answered with not-found: \<open>DeleteResourcesAtPath\<close> returns that not-found error after the
  one delete request, and phase two never starts. The same remote system makes the
  dispatcher's delete return nil.
\<close>

theorem bulk_delete_propagates_not_found:
  "DeleteResourcesAtPath templates (client storeDynamic 3) ''templates'' [] =
     (Returns (Some (StatusError StatusReasonNotFound)), [DeleteCall deployments ''prod'' ''web'']) \<and>
   unstructuredResourceOperation (client storeDynamic 3) ''delete'' [] webResource [] =
     (Returns None, [DeleteCall deployments ''prod'' ''web''])"
  by code_simp

section \<open>Properties of the polling loops\<close>

lemma fetches_rounds:
  "fetches (tr @ concat (replicate k [GetCall g ns n, Sleep d])) = fetches tr + k"
  by (induction k) (simp_all add: fetches_def)

text \<open>
  While no fetch gives what the target state asks for, the loop of the existence poll runs
  through every remaining try, one fetch and one sleep each, and ends in the timeout.
\<close>

lemma ResourceShouldBe_loop_unsatisfied:
  assumes never: "\<forall>h. case Get dyn h (MappingResource gvr) (GetNamespace resource) (GetName resource) of
                        Inl err \<Rightarrow> IsNotFound err \<and> state \<noteq> stateDeleted
                      | Inr obj \<Rightarrow> state \<noteq> stateCreated"
    and le: "counter \<le> getWaiterTries kc"
  shows "ResourceShouldBe_loop kc dyn gvr resource state counter tr =
           (Returns (Some (WaiterTimedOut ''waiter timed out waiting for resource state'')),
            tr @ concat (replicate (nat (getWaiterTries kc - counter))
                   [GetCall (MappingResource gvr) (GetNamespace resource) (GetName resource),
                    Sleep (getWaiterInterval kc)]))"
  using le
proof (induction "nat (getWaiterTries kc - counter)" arbitrary: counter tr)
  case 0
  then have "counter \<ge> getWaiterTries kc" by simp
  with 0 show ?case
    by (subst ResourceShouldBe_loop.simps) simp
next
  case (Suc k)
  then have lt: "\<not> counter \<ge> getWaiterTries kc" by simp
  have k: "k = nat (getWaiterTries kc - (counter + 1))" using Suc.hyps(2) by simp
  have le': "counter + 1 \<le> getWaiterTries kc" using lt by simp
  note IH = Suc.hyps(1)[OF k le']
  have rep: "nat (getWaiterTries kc - counter) = Suc k" using Suc.hyps(2) by simp
  from never have here:
    "case Get dyn tr (MappingResource gvr) (GetNamespace resource) (GetName resource) of
       Inl err \<Rightarrow> IsNotFound err \<and> state \<noteq> stateDeleted
     | Inr obj \<Rightarrow> state \<noteq> stateCreated" by blast
  show ?case
    using here lt IH
    by (subst ResourceShouldBe_loop.simps)
       (auto simp: Let_def rep k[symmetric] split: sum.splits)
qed

text \<open>
  C3. On a validated client context whose resource file resolves and whose number of
  tries is N, at least 1: when every fetch reports the resource present, the existence
  poll for the target deleted sends exactly N fetches, each followed by a sleep, and then
  returns the timeout error; when the first fetch reports not-found, it returns nil after
  that one fetch.
\<close>

theorem existence_poll_deleted_target:
  assumes "Validate kc = None"
    and "DynamicInterface kc = Some dyn"
    and "GetResourceFromYaml ext (getResourcePath ext kc f) = Inr r"
    and "WaiterTries kc = N" and "N \<ge> 1"
    and "g = MappingResource (GVR r)"
    and "ns = GetNamespace (Resource r)"
    and "n = GetName (Resource r)"
  shows "((\<forall>h. \<exists>obj. Get dyn h g ns n = Inr obj) \<longrightarrow>
            ResourceShouldBe ext kc f ''deleted'' tr =
              (Returns (Some (WaiterTimedOut ''waiter timed out waiting for resource state'')),
               tr @ concat (replicate (nat N) [GetCall g ns n, Sleep (getWaiterInterval kc)])) \<and>
            fetches (snd (ResourceShouldBe ext kc f ''deleted'' tr)) = fetches tr + nat N) \<and>
         ((\<exists>err. Get dyn tr g ns n = Inl err \<and> IsNotFound err) \<longrightarrow>
            ResourceShouldBe ext kc f ''deleted'' tr = (Returns None, tr @ [GetCall g ns n]))"
proof (intro conjI impI)
  assume present: "\<forall>h. \<exists>obj. Get dyn h g ns n = Inr obj"
  have tries: "getWaiterTries kc = N" using assms(4,5) by (simp add: getWaiterTries_def)
  have never: "\<forall>h. case Get dyn h (MappingResource (GVR r)) (GetNamespace (Resource r)) (GetName (Resource r)) of
                     Inl err \<Rightarrow> IsNotFound err \<and> ''deleted'' \<noteq> stateDeleted
                   | Inr obj \<Rightarrow> ''deleted'' \<noteq> stateCreated"
  proof
    fix h
    from present obtain obj where "Get dyn h g ns n = Inr obj" by blast
    then show "case Get dyn h (MappingResource (GVR r)) (GetNamespace (Resource r)) (GetName (Resource r)) of
                     Inl err \<Rightarrow> IsNotFound err \<and> ''deleted'' \<noteq> stateDeleted
                   | Inr obj \<Rightarrow> ''deleted'' \<noteq> stateCreated"
      using assms(6-8) by (simp add: stateCreated_def)
  qed
  have le: "0 \<le> getWaiterTries kc" using tries assms(5) by simp
  show run: "ResourceShouldBe ext kc f ''deleted'' tr =
              (Returns (Some (WaiterTimedOut ''waiter timed out waiting for resource state'')),
               tr @ concat (replicate (nat N) [GetCall g ns n, Sleep (getWaiterInterval kc)]))"
    using assms(1-3,6-8) ResourceShouldBe_loop_unsatisfied[OF never le, of tr] tries
    by (simp add: ResourceShouldBe_def)
  show "fetches (snd (ResourceShouldBe ext kc f ''deleted'' tr)) = fetches tr + nat N"
    by (simp add: run fetches_rounds)
next
  assume "\<exists>err. Get dyn tr g ns n = Inl err \<and> IsNotFound err"
  then obtain err where err: "Get dyn tr g ns n = Inl err" "IsNotFound err" by blast
  have "\<not> 0 \<ge> getWaiterTries kc" by (simp add: getWaiterTries_def)
  then show "ResourceShouldBe ext kc f ''deleted'' tr = (Returns None, tr @ [GetCall g ns n])"
    using assms(1-3,6-8) err
    by (simp add: ResourceShouldBe_def ResourceShouldBe_loop.simps[of _ _ _ _ _ 0] Let_def stateDeleted_def)
qed

theorem existence_poll_deleted_target_witness:
  "Validate (client (presentDynamic webDoc) 3) = None \<and>
   WaiterTries (client (presentDynamic webDoc) 3) = 3 \<and>
   ResourceShouldBe templates (client (presentDynamic webDoc) 3) ''web.yaml'' ''deleted'' [] =
     (Returns (Some (WaiterTimedOut ''waiter timed out waiting for resource state'')),
      [GetCall deployments ''prod'' ''web'', Sleep 1000000000,
       GetCall deployments ''prod'' ''web'', Sleep 1000000000,
       GetCall deployments ''prod'' ''web'', Sleep 1000000000]) \<and>
   fetches (snd (ResourceShouldBe templates (client (presentDynamic webDoc) 3) ''web.yaml'' ''deleted'' [])) = 3 \<and>
   Get storeDynamic [] deployments ''prod'' ''web'' = Inl (StatusError StatusReasonNotFound) \<and>
   ResourceShouldBe templates (client storeDynamic 3) ''web.yaml'' ''deleted'' [] =
     (Returns None, [GetCall deployments ''prod'' ''web''])"
proof -
  have v1: "Validate (client (presentDynamic webDoc) 3) = None"
    and v2: "Validate (client storeDynamic 3) = None"
    by (simp_all add: Validate_def client_def)
  have d1: "DynamicInterface (client (presentDynamic webDoc) 3) = Some (presentDynamic webDoc)"
    and d2: "DynamicInterface (client storeDynamic 3) = Some storeDynamic"
    by (simp_all add: client_def)
  have r1: "GetResourceFromYaml templates (getResourcePath templates (client (presentDynamic webDoc) 3) ''web.yaml'') =
              Inr webResource"
    and r2: "GetResourceFromYaml templates (getResourcePath templates (client storeDynamic 3) ''web.yaml'') =
              Inr webResource"
    by (simp_all add: templates_def getResourcePath_def getTemplatesPath_def client_def)
  have t1: "WaiterTries (client (presentDynamic webDoc) 3) = 3"
    and t2: "WaiterTries (client storeDynamic 3) = 3"
    by (simp_all add: client_def)
  have g: "deployments = MappingResource (GVR webResource)"
    by (simp add: webResource_def)
  have ns: "''prod'' = GetNamespace (Resource webResource)"
    and n: "''web'' = GetName (Resource webResource)"
    by code_simp+
  have present: "\<forall>h. \<exists>obj. Get (presentDynamic webDoc) h deployments ''prod'' ''web'' = Inr obj"
    by (simp add: presentDynamic_def)
  have absent: "Get storeDynamic [] deployments ''prod'' ''web'' = Inl (StatusError StatusReasonNotFound)"
    by code_simp
  have interval: "getWaiterInterval (client (presentDynamic webDoc) 3) = 1000000000"
    by (simp add: getWaiterInterval_def client_def)
  have rounds: "concat (replicate 3 [GetCall deployments ''prod'' ''web'', Sleep (1000000000::int)]) =
      [GetCall deployments ''prod'' ''web'', Sleep 1000000000,
       GetCall deployments ''prod'' ''web'', Sleep 1000000000,
       GetCall deployments ''prod'' ''web'', Sleep 1000000000]"
    by (simp add: numeral_3_eq_3)
  have three: "(1::int) \<le> 3" by simp
  from existence_poll_deleted_target [OF v1 d1 r1 t1 three g ns n, of "[]"] present
  have timed: "ResourceShouldBe templates (client (presentDynamic webDoc) 3) ''web.yaml'' ''deleted'' [] =
     (Returns (Some (WaiterTimedOut ''waiter timed out waiting for resource state'')),
      [GetCall deployments ''prod'' ''web'', Sleep 1000000000,
       GetCall deployments ''prod'' ''web'', Sleep 1000000000,
       GetCall deployments ''prod'' ''web'', Sleep 1000000000])"
    by (simp add: interval rounds)
  have count: "fetches (snd (ResourceShouldBe templates (client (presentDynamic webDoc) 3) ''web.yaml'' ''deleted'' [])) = 3"
    by (simp add: timed fetches_def)
  from existence_poll_deleted_target [OF v2 d2 r2 t2 three g ns n, of "[]"] absent
  have gone: "ResourceShouldBe templates (client storeDynamic 3) ''web.yaml'' ''deleted'' [] =
     (Returns None, [GetCall deployments ''prod'' ''web''])"
    by simp
  from v1 t1 timed count absent gone show ?thesis by simp
qed

text \<open>
  C10. On a validated client context whose resource file resolves, when every fetch either
  succeeds or reports not-found, the existence poll for a state token other than created
  and deleted never returns nil: it sends as many fetches as there are tries, each
  followed by a sleep, and returns the timeout error.
\<close>

theorem existence_poll_other_state_times_out:
  assumes "state \<notin> {''created'', ''deleted''}"
    and "Validate kc = None"
    and "DynamicInterface kc = Some dyn"
    and "GetResourceFromYaml ext (getResourcePath ext kc f) = Inr r"
    and "g = MappingResource (GVR r)"
    and "ns = GetNamespace (Resource r)"
    and "n = GetName (Resource r)"
    and "\<forall>h. case Get dyn h g ns n of Inl err \<Rightarrow> IsNotFound err | Inr obj \<Rightarrow> True"
  shows "ResourceShouldBe ext kc f state tr =
           (Returns (Some (WaiterTimedOut ''waiter timed out waiting for resource state'')),
            tr @ concat (replicate (nat (getWaiterTries kc)) [GetCall g ns n, Sleep (getWaiterInterval kc)])) \<and>
         fetches (snd (ResourceShouldBe ext kc f state tr)) = fetches tr + nat (getWaiterTries kc)"
proof -
  have never: "\<forall>h. case Get dyn h (MappingResource (GVR r)) (GetNamespace (Resource r)) (GetName (Resource r)) of
                     Inl err \<Rightarrow> IsNotFound err \<and> state \<noteq> stateDeleted
                   | Inr obj \<Rightarrow> state \<noteq> stateCreated"
    using assms(1,5-8) by (auto simp: stateCreated_def stateDeleted_def split: sum.splits)
  have le: "0 \<le> getWaiterTries kc" by (simp add: getWaiterTries_def)
  have run: "ResourceShouldBe ext kc f state tr =
           (Returns (Some (WaiterTimedOut ''waiter timed out waiting for resource state'')),
            tr @ concat (replicate (nat (getWaiterTries kc)) [GetCall g ns n, Sleep (getWaiterInterval kc)]))"
    using assms(2-7) ResourceShouldBe_loop_unsatisfied[OF never le, of tr]
    by (simp add: ResourceShouldBe_def)
  then show ?thesis by (simp add: fetches_rounds)
qed

theorem existence_poll_other_state_times_out_witness:
  "''ready'' \<notin> {''created'', ''deleted''} \<and>
   Validate (client storeDynamic 2) = None \<and>
   getWaiterTries (client storeDynamic 2) = 2 \<and>
   ResourceShouldBe templates (client storeDynamic 2) ''web.yaml'' ''ready'' [] =
     (Returns (Some (WaiterTimedOut ''waiter timed out waiting for resource state'')),
      [GetCall deployments ''prod'' ''web'', Sleep 1000000000,
       GetCall deployments ''prod'' ''web'', Sleep 1000000000])"
proof -
  have s: "''ready'' \<notin> {''created'', ''deleted''}" by simp
  have v: "Validate (client storeDynamic 2) = None"
    by (simp add: Validate_def client_def)
  have d: "DynamicInterface (client storeDynamic 2) = Some storeDynamic"
    by (simp add: client_def)
  have r: "GetResourceFromYaml templates (getResourcePath templates (client storeDynamic 2) ''web.yaml'') =
              Inr webResource"
    by (simp add: templates_def getResourcePath_def getTemplatesPath_def client_def)
  have g: "deployments = MappingResource (GVR webResource)"
    by (simp add: webResource_def)
  have ns: "''prod'' = GetNamespace (Resource webResource)"
    and n: "''web'' = GetName (Resource webResource)"
    by code_simp+
  have answers: "\<forall>h. case Get storeDynamic h deployments ''prod'' ''web'' of
                       Inl err \<Rightarrow> IsNotFound err | Inr obj \<Rightarrow> True"
    by (simp add: storeDynamic_def split: option.splits)
  have tries: "getWaiterTries (client storeDynamic 2) = 2"
    and interval: "getWaiterInterval (client storeDynamic 2) = 1000000000"
    by (simp_all add: getWaiterTries_def getWaiterInterval_def client_def)
  have rounds: "concat (replicate 2 [GetCall deployments ''prod'' ''web'', Sleep (1000000000::int)]) =
      [GetCall deployments ''prod'' ''web'', Sleep 1000000000,
       GetCall deployments ''prod'' ''web'', Sleep 1000000000]"
    by (simp add: numeral_2_eq_2)
  from existence_poll_other_state_times_out [OF s v d r g ns n answers, of "[]"]
  have "ResourceShouldBe templates (client storeDynamic 2) ''web.yaml'' ''ready'' [] =
     (Returns (Some (WaiterTimedOut ''waiter timed out waiting for resource state'')),
      [GetCall deployments ''prod'' ''web'', Sleep 1000000000,
       GetCall deployments ''prod'' ''web'', Sleep 1000000000])"
    by (simp add: tries interval rounds)
  with s v tries show ?thesis by simp
qed

text \<open>
  In the three polls a fetch error ends the function on the attempt where it occurs (any
  error in the field-convergence and condition-match polls, any error but not-found in
  the existence poll). The wait loop of the bulk delete goes on to the next attempt.
\<close>

lemma ResourceShouldBe_loop_fetch_error:
  assumes "counter < getWaiterTries kc"
    and "Get dyn tr (MappingResource gvr) (GetNamespace resource) (GetName resource) = Inl err"
    and "\<not> IsNotFound err"
  shows "ResourceShouldBe_loop kc dyn gvr resource state counter tr =
           (Returns (Some err),
            tr @ [GetCall (MappingResource gvr) (GetNamespace resource) (GetName resource)])"
  using assms by (subst ResourceShouldBe_loop.simps) (simp add: Let_def)

lemma ResourceShouldConvergeToSelector_loop_fetch_error:
  assumes "counter < getWaiterTries kc"
    and "Get dyn tr (MappingResource gvr) (GetNamespace resource) (GetName resource) = Inl err"
  shows "ResourceShouldConvergeToSelector_loop kc dyn gvr resource keySlice v counter tr =
           (Returns (Some err),
            tr @ [GetCall (MappingResource gvr) (GetNamespace resource) (GetName resource)])"
  using assms by (subst ResourceShouldConvergeToSelector_loop.simps) (simp add: Let_def)

lemma ResourceConditionShouldBe_loop_fetch_error:
  assumes "counter < getWaiterTries kc"
    and "Get dyn tr (MappingResource gvr) (GetNamespace resource) (GetName resource) = Inl err"
  shows "ResourceConditionShouldBe_loop kc dyn gvr resource cType expectedStatus counter tr =
           (Returns (Some err),
            tr @ [GetCall (MappingResource gvr) (GetNamespace resource) (GetName resource)])"
  using assms by (subst ResourceConditionShouldBe_loop.simps) (simp add: Let_def)

lemma waitFn_loop_fetch_error_retried:
  assumes "counter < getWaiterTries kc"
    and "Get dyn tr (MappingResource gvr) (GetNamespace resource) (GetName resource) = Inl err"
    and "\<not> IsNotFound err"
  shows "waitFn_loop kc dyn gvr resource counter tr =
           waitFn_loop kc dyn gvr resource (counter + 1)
             (tr @ [GetCall (MappingResource gvr) (GetNamespace resource) (GetName resource),
                    Sleep (getWaiterInterval kc)])"
  using assms by (subst waitFn_loop.simps) (simp add: Let_def)

text \<open>
  C4. The claim fails in the wait phase of the bulk directory delete. The remote system
  accepts the delete of the one resource file and then answers every fetch with the error
  Forbidden, which is not not-found; with two tries, \<open>DeleteResourcesAtPath\<close> fetches
  again after the first failed fetch and returns the timeout error, never the fetch
  error. The existence poll on the same remote system returns Forbidden after one fetch.
\<close>

theorem bulk_wait_retries_after_fetch_error:
  "Get forbiddenDynamic [DeleteCall deployments ''prod'' ''web''] deployments ''prod'' ''web'' =
     Inl (StatusError (StatusReasonOther ''Forbidden'')) \<and>
   IsNotFound (StatusError (StatusReasonOther ''Forbidden'')) = False \<and>
   DeleteResourcesAtPath templates (client forbiddenDynamic 2) ''templates'' [] =
     (Returns (Some (WaiterTimedOut ''waiter timed out waiting for deletion'')),
      [DeleteCall deployments ''prod'' ''web'',
       GetCall deployments ''prod'' ''web'', Sleep 1000000000,
       GetCall deployments ''prod'' ''web'', Sleep 1000000000]) \<and>
   ResourceShouldBe templates (client forbiddenDynamic 2) ''web.yaml'' ''deleted'' [] =
     (Returns (Some (StatusError (StatusReasonOther ''Forbidden''))),
      [GetCall deployments ''prod'' ''web''])"
  by code_simp

text \<open>
  An entry of the conditions list that is not a map, has no type key, or has a type that
  is not a string is passed over. An entry of the requested type whose status is missing
  or not a string stops the scan with the panic of the type assertion.
\<close>

lemma scanConditions_skips_malformed:
  assumes "(\<forall>condition. c \<noteq> JMap condition)
         \<or> (\<exists>condition. c = JMap condition \<and> map_of condition ''type'' = None)
         \<or> (\<exists>condition tp. c = JMap condition \<and> map_of condition ''type'' = Some tp \<and>
               (\<forall>condType. tp \<noteq> JString condType))"
  shows "scanConditions (c # conditions) cType expectedStatus =
           scanConditions conditions cType expectedStatus"
  using assms by (auto split: json.splits option.splits)

lemma scanConditions_panics_without_status:
  assumes "map_of condition ''type'' = Some (JString cType)"
    and "\<forall>status. map_of condition ''status'' \<noteq> Some (JString status)"
  shows "scanConditions (JMap condition # conditions) cType expectedStatus = AssertionPanic"
  using assms by (auto split: json.splits option.splits)

text \<open>
  C5. The claim fails for an entry that lacks a string-typed status. The fetched document
  has the one condition of type Ready with no status key; the condition-match poll for
  type Ready panics on its first attempt instead of passing the entry over.
\<close>

theorem condition_poll_panics_on_missing_status:
  "scanConditions [JMap [(''type'', JString ''Ready'')]] ''Ready'' ''True'' = AssertionPanic \<and>
   ResourceConditionShouldBe templates (client (presentDynamic webDocNoStatus) 3) ''web.yaml''
       ''Ready'' ''true'' [] =
     (Panics ''interface conversion: interface {} is not string'', [GetCall deployments ''prod'' ''web''])"
  by code_simp

section \<open>The selector of the field-convergence poll\<close>

lemma Split_no_sep: "sep \<notin> set s \<Longrightarrow> Split s sep = [s]"
  by (induction s) auto

lemma Split_first_sep: "sep \<notin> set a \<Longrightarrow> Split (a @ sep # b) sep = a # Split b sep"
  by (induction a) auto

lemma DeleteEmpty_singleton: "length (DeleteEmpty [s]) \<noteq> 2"
  by (simp add: DeleteEmpty_def)

lemma DeleteEmpty_with_empty:
  "length (DeleteEmpty [[], s]) \<noteq> 2" "length (DeleteEmpty [s, []]) \<noteq> 2"
  by (simp_all add: DeleteEmpty_def)

lemma selector_pieces:
  assumes "CHR ''='' \<notin> set selector
         \<or> (\<exists>v. selector = CHR ''='' # v \<and> CHR ''='' \<notin> set v)
         \<or> (\<exists>key. selector = key @ ''='' \<and> CHR ''='' \<notin> set key)"
  shows "length (DeleteEmpty (Split selector CHR ''='')) \<noteq> 2"
  using assms
proof (elim disjE exE conjE)
  assume "CHR ''='' \<notin> set selector"
  then show ?thesis by (simp add: Split_no_sep DeleteEmpty_singleton)
next
  fix v assume "selector = CHR ''='' # v" "CHR ''='' \<notin> set v"
  then show ?thesis by (simp add: Split_no_sep DeleteEmpty_with_empty)
next
  fix key assume "selector = key @ ''=''" "CHR ''='' \<notin> set key"
  then show ?thesis by (simp add: Split_first_sep DeleteEmpty_with_empty)
qed

text \<open>
  C6, as stated, fails: the selector \<open>metadata.name==web\<close> has two \<open>=\<close>, yet the poll on a
  validated client context takes it for the key \<open>metadata.name\<close> and the value \<open>web\<close>,
  fetches the resource and returns nil.
\<close>

theorem selector_double_equals_accepted:
  "count_list ''metadata.name==web'' CHR ''='' = 2 \<and>
   Validate (client (presentDynamic webDoc) 3) = None \<and>
   DeleteEmpty (Split ''metadata.name==web'' CHR ''='') = [''metadata.name'', ''web''] \<and>
   ResourceShouldConvergeToSelector templates (client (presentDynamic webDoc) 3) ''web.yaml''
       ''metadata.name==web'' [] =
     (Returns None, [GetCall deployments ''prod'' ''web''])"
  by code_simp

text \<open>
  C6, amended. On a validated client context the field-convergence poll returns a format
  error at once, with no event (no fetch, no sleep), for every selector whose pieces
  between \<open>=\<close>, the empty ones dropped, are not exactly two, and for every selector whose
  key has no non-empty piece between its dots. Every selector without \<open>=\<close>, and every
  selector with exactly one \<open>=\<close> and nothing before it or nothing after it, is of the first
  kind.
\<close>

theorem selector_format_error_before_fetch:
  assumes "Validate kc = None"
    and "CHR ''='' \<notin> set selector
         \<or> (\<exists>v. selector = CHR ''='' # v \<and> CHR ''='' \<notin> set v)
         \<or> (\<exists>key. selector = key @ ''='' \<and> CHR ''='' \<notin> set key)
         \<or> length (DeleteEmpty (Split selector CHR ''='')) \<noteq> 2
         \<or> DeleteEmpty (Split (DeleteEmpty (Split selector CHR ''='') ! 0) CHR ''.'') = []"
  shows "\<exists>err. IsFormatError err \<and>
           ResourceShouldConvergeToSelector ext kc f selector tr = (Returns (Some err), tr)"
proof (cases "length (DeleteEmpty (Split selector CHR ''='')) \<noteq> 2")
  case True
  then have "ResourceShouldConvergeToSelector ext kc f selector tr =
               (Returns (Some (SelectorFormat selector)), tr)"
    using assms(1) by (simp add: ResourceShouldConvergeToSelector_def Let_def)
  then show ?thesis by simp
next
  case False
  with assms(2) selector_pieces[of selector]
  have "DeleteEmpty (Split (DeleteEmpty (Split selector CHR ''='') ! 0) CHR ''.'') = []"
    by blast
  with False have "ResourceShouldConvergeToSelector ext kc f selector tr =
               (Returns (Some (EmptySelectorKey selector)), tr)"
    using assms(1) by (simp add: ResourceShouldConvergeToSelector_def Let_def)
  then show ?thesis by simp
qed

theorem selector_format_error_before_fetch_witness:
  "Validate (client (presentDynamic webDoc) 3) = None \<and>
   CHR ''='' \<notin> set ''badselector'' \<and>
   ResourceShouldConvergeToSelector templates (client (presentDynamic webDoc) 3) ''web.yaml''
     ''badselector'' [] = (Returns (Some (SelectorFormat ''badselector'')), [])"
proof -
  have v: "Validate (client (presentDynamic webDoc) 3) = None"
    by (simp add: Validate_def client_def)
  have s: "CHR ''='' \<notin> set ''badselector''" by simp
  from selector_format_error_before_fetch [OF v disjI1, OF s, of templates "''web.yaml''" "[]"]
  obtain err where "IsFormatError err"
    and run: "ResourceShouldConvergeToSelector templates (client (presentDynamic webDoc) 3) ''web.yaml''
       ''badselector'' [] = (Returns (Some err), [])"
    by blast
  have "ResourceShouldConvergeToSelector templates (client (presentDynamic webDoc) 3) ''web.yaml''
     ''badselector'' [] = (Returns (Some (SelectorFormat ''badselector'')), [])"
    by code_simp
  with v s run show ?thesis by simp
qed

end
